theory Spec2Isabelle
  imports Complex_Main
begin

section \<open>Conventions of the embedding\<close>

text \<open>
  The development embeds the reading-history store (\<^verbatim>\<open>internal/config/config.go\<close>), the
  statistics and relative-time parsers of the scraper (\<^verbatim>\<open>package api\<close>) and the reader's
  pagination state machine (\<^verbatim>\<open>internal/ui/reader.go\<close>).

  \<^item> A Go \<^verbatim>\<open>string\<close> is a byte sequence and \<^verbatim>\<open>len\<close> counts bytes: it is a \<^typ>\<open>string\<close>.
  \<^item> A Go \<^verbatim>\<open>int\<close> is an \<^typ>\<open>int\<close>; the lengths, page numbers and chapter indices of
    the reader stay far below \<open>2 ^ 63\<close>. Where a product can leave the 64-bit range
    (durations) the wrap-around is written out with \<open>wrap64\<close>.
  \<^item> A Go \<^verbatim>\<open>float64\<close> is a \<^typ>\<open>real\<close>; the rounding of a floating-point product or
    quotient is a parameter \<open>rnd\<close> of the model.
  \<^item> A run-time panic is a value of type \<open>panic\<close> on the left of a sum.
  \<^item> Functions of libraries outside the repository (HTML entity decoding, terminal
    styling, float parsing, calendar arithmetic) are parameters.
\<close>

datatype panic = DivideByZero | IndexOutOfRange | SliceOutOfRange

text \<open>Go's integer division truncates towards zero.\<close>

definition quot :: "int \<Rightarrow> int \<Rightarrow> int" where
  "quot a b = sgn a * sgn b * (\<bar>a\<bar> div \<bar>b\<bar>)"

text \<open>The value of a 64-bit two's complement integer after wrap-around.\<close>

definition wrap64 :: "int \<Rightarrow> int" where
  "wrap64 x = (x + 2 ^ 63) mod 2 ^ 64 - 2 ^ 63"

section \<open>Reading history (internal/config/config.go)\<close>

record ReadingEntry =
  FictionID :: string
  FictionTitle :: string
  Author :: string
  CurrentChapter :: int
  ChapterTitle :: string
  ChapterProgress :: real
  LastRead :: string
  TotalChapters :: int

text \<open>
  Of \<^verbatim>\<open>Config\<close> the fields \<^verbatim>\<open>LastFiction\<close> and \<^verbatim>\<open>ReadingHistory\<close> are kept; the theme,
  the reading options and the bookmarks are touched by none of the functions below.
\<close>

record Config =
  LastFiction :: string
  ReadingHistory :: "ReadingEntry list"

text \<open>
  The loop of \<^verbatim>\<open>UpdateReadingProgress\<close> stops at the first index whose entry has the
  fiction id looked for.
\<close>

fun indexOfFiction :: "string \<Rightarrow> ReadingEntry list \<Rightarrow> nat option" where
  "indexOfFiction fid [] = None"
| "indexOfFiction fid (existing # rest) =
     (if FictionID existing = fid then Some 0
      else map_option Suc (indexOfFiction fid rest))"

text \<open>
  At the index found the entry is overwritten; when the index is not 0 the history
  becomes the new entry followed by the old history without that index
  (\<^verbatim>\<open>append([]ReadingEntry{entry}, append(h[:i], h[i+1:]...)...)\<close>). With no entry found
  the new entry is put in front.
\<close>

definition UpdateReadingProgress :: "ReadingEntry \<Rightarrow> Config \<Rightarrow> Config" where
  "UpdateReadingProgress entry c =
     (case indexOfFiction (FictionID entry) (ReadingHistory c) of
        Some i \<Rightarrow>
          (let h = (ReadingHistory c)[i := entry] in
           c\<lparr>ReadingHistory :=
                (if i \<noteq> 0 then [entry] @ (take i h @ drop (i + 1) h) else h),
             LastFiction := FictionID entry\<rparr>)
      | None \<Rightarrow>
          c\<lparr>ReadingHistory := [entry] @ ReadingHistory c,
            LastFiction := FictionID entry\<rparr>)"

text \<open>
  \<^verbatim>\<open>GetReadingHistoryPage\<close>. The division panics for a page size of 0, and the slice
  expression \<^verbatim>\<open>h[start:end]\<close> panics unless \<open>0 \<le> start \<le> end\<close> (\<open>end\<close> never exceeds the
  length).
\<close>

definition GetReadingHistoryPage ::
  "Config \<Rightarrow> int \<Rightarrow> int \<Rightarrow> panic + (ReadingEntry list \<times> int \<times> bool \<times> bool)" where
  "GetReadingHistoryPage c page pageSize =
     (let total = int (length (ReadingHistory c)) in
      if total = 0 then Inr ([], 0, False, False)
      else if pageSize = 0 then Inl DivideByZero
      else
        let totalPages = quot (total + pageSize - 1) pageSize;
            page1 = (if page < 1 then 1 else page);
            page2 = (if page1 > totalPages then totalPages else page1);
            start = (page2 - 1) * pageSize;
            end0 = start + pageSize;
            end1 = (if end0 > total then total else end0);
            hasNext = (page2 < totalPages);
            hasPrev = (page2 > 1)
        in if 0 \<le> start \<and> start \<le> end1
           then Inr (take (nat (end1 - start)) (drop (nat start) (ReadingHistory c)),
                     totalPages, hasNext, hasPrev)
           else Inl SliceOutOfRange)"

definition GetLastReadEntry :: "Config \<Rightarrow> ReadingEntry option" where
  "GetLastReadEntry c =
     (if length (ReadingHistory c) > 0 then Some (ReadingHistory c ! 0) else None)"

section \<open>Strings (the functions of Go's strings, strconv and regexp that the code calls)\<close>

text \<open>
  White space. \<^verbatim>\<open>strings.TrimSpace\<close> and \<^verbatim>\<open>strings.Fields\<close> cut at Unicode white space;
  on ASCII text that is tab, line feed, vertical tab, form feed, carriage return and
  space. The class \<^verbatim>\<open>\s\<close> of Go's regular expressions leaves the vertical tab out. Bytes
  from 128 on are not white space here: the model is exact on texts without
  non-ASCII white space.
\<close>

definition nl :: string where
  "nl = [CHR 0x0A]"

definition isSpace :: "char \<Rightarrow> bool" where
  "isSpace c \<longleftrightarrow> c = CHR 0x09 \<or> c = CHR 0x0A \<or> c = CHR 0x0B \<or> c = CHR 0x0C
     \<or> c = CHR 0x0D \<or> c = CHR 0x20"

definition isReSpace :: "char \<Rightarrow> bool" where
  "isReSpace c \<longleftrightarrow> c = CHR 0x09 \<or> c = CHR 0x0A \<or> c = CHR 0x0C \<or> c = CHR 0x0D
     \<or> c = CHR 0x20"

definition isDigit :: "char \<Rightarrow> bool" where
  "isDigit c \<longleftrightarrow> c \<in> set ''0123456789''"

definition TrimSpace :: "string \<Rightarrow> string" where
  "TrimSpace s = rev (dropWhile isSpace (rev (dropWhile isSpace s)))"

fun FieldsFrom :: "string \<Rightarrow> string \<Rightarrow> string list" where
  "FieldsFrom cur [] = (if cur = [] then [] else [cur])"
| "FieldsFrom cur (c # cs) =
     (if isSpace c then (if cur = [] then FieldsFrom [] cs else cur # FieldsFrom [] cs)
      else FieldsFrom (cur @ [c]) cs)"

definition Fields :: "string \<Rightarrow> string list" where
  "Fields s = FieldsFrom [] s"

text \<open>
  \<^verbatim>\<open>strings.Split(s, sep)\<close> for a separator that is not empty (the code splits at
  \<^verbatim>\<open>"\n"\<close>, \<^verbatim>\<open>"\n\n"\<close>, \<^verbatim>\<open>". "\<close> and \<^verbatim>\<open>"/"\<close> only): the pieces between the occurrences
  of the separator, found from left to right without overlap; never an empty list.
\<close>

function SplitFrom :: "string \<Rightarrow> string \<Rightarrow> string \<Rightarrow> string list" where
  "SplitFrom sep cur [] = [cur]"
| "SplitFrom sep cur (c # cs) =
     (if sep \<noteq> [] \<and> take (length sep) (c # cs) = sep
      then cur # SplitFrom sep [] (drop (length sep) (c # cs))
      else SplitFrom sep (cur @ [c]) cs)"
  by pat_completeness auto
termination
  by (relation "measure (\<lambda>(sep, cur, s). length s)") auto

definition Split :: "string \<Rightarrow> string \<Rightarrow> string list" where
  "Split s sep = SplitFrom sep [] s"

fun Join :: "string list \<Rightarrow> string \<Rightarrow> string" where
  "Join [] sep = []"
| "Join [x] sep = x"
| "Join (x # y # ys) sep = x @ sep @ Join (y # ys) sep"

fun Contains :: "string \<Rightarrow> string \<Rightarrow> bool" where
  "Contains [] substr = (substr = [])"
| "Contains (c # cs) substr =
     (take (length substr) (c # cs) = substr \<or> Contains cs substr)"

definition HasSuffix :: "string \<Rightarrow> string \<Rightarrow> bool" where
  "HasSuffix s suffix \<longleftrightarrow>
     length suffix \<le> length s \<and> drop (length s - length suffix) s = suffix"

text \<open>
  \<^verbatim>\<open>strconv.Atoi\<close> on a 64-bit platform: an optional sign, then one or more decimal
  digits and nothing else; a value outside the 64-bit range is an error.
\<close>

fun digitsValue :: "int \<Rightarrow> string \<Rightarrow> int" where
  "digitsValue n [] = n"
| "digitsValue n (c # cs) = digitsValue (n * 10 + (int (of_char c) - 48)) cs"

definition Atoi :: "string \<Rightarrow> int option" where
  "Atoi s =
     (let neg = (s \<noteq> [] \<and> hd s = CHR ''-'');
          body = (if s \<noteq> [] \<and> (hd s = CHR ''-'' \<or> hd s = CHR ''+'') then tl s else s)
      in if body = [] \<or> \<not> list_all isDigit body then None
         else let v = digitsValue 0 body; n = (if neg then - v else v)
              in if - (2 ^ 63) \<le> n \<and> n \<le> 2 ^ 63 - 1 then Some n else None)"

text \<open>
  \<^verbatim>\<open>regexp.MustCompile(`(\d+)\s*unit`).FindStringSubmatch\<close>: the leftmost match. At a
  start position the digits and then the white space are taken as far as they go (a
  shorter run would be followed by a digit or a space, never by the unit), and the
  unit word must follow. The result is the first group, the digits.
\<close>

definition matchQuantityAt :: "string \<Rightarrow> string \<Rightarrow> string option" where
  "matchQuantityAt unit s =
     (let ds = takeWhile isDigit s;
          r = dropWhile isReSpace (dropWhile isDigit s)
      in if ds \<noteq> [] \<and> take (length unit) r = unit then Some ds else None)"

fun findQuantity :: "string \<Rightarrow> string \<Rightarrow> string option" where
  "findQuantity unit [] = None"
| "findQuantity unit (c # cs) =
     (case matchQuantityAt unit (c # cs) of
        Some ds \<Rightarrow> Some ds
      | None \<Rightarrow> findQuantity unit cs)"

section \<open>Relative release times (parseRelativeTime)\<close>

text \<open>
  \<^verbatim>\<open>time.Time\<close> is a type parameter; \<open>Add\<close> (a duration in nanoseconds) and \<open>AddDate\<close>
  (years, months, days) are the methods of the time library, and \<open>now\<close> is the reading of
  \<^verbatim>\<open>time.Now()\<close>. The error result of the source is always \<^verbatim>\<open>nil\<close> and is left out.
\<close>

definition Hour :: int where
  "Hour = 3600000000000"

definition parseRelativeTime ::
  "('t \<Rightarrow> int \<Rightarrow> 't) \<Rightarrow> ('t \<Rightarrow> int \<Rightarrow> int \<Rightarrow> int \<Rightarrow> 't) \<Rightarrow> 't \<Rightarrow> string \<Rightarrow> 't" where
  "parseRelativeTime Add AddDate now timeText =
     (if Contains timeText ''ago'' then
        if Contains timeText ''hour'' then
          (case findQuantity ''hour'' timeText of
             Some ds \<Rightarrow>
               (case Atoi ds of
                  Some hours \<Rightarrow> Add now (wrap64 (wrap64 (- hours) * Hour))
                | None \<Rightarrow> now)
           | None \<Rightarrow> now)
        else if Contains timeText ''day'' then
          (case findQuantity ''day'' timeText of
             Some ds \<Rightarrow>
               (case Atoi ds of
                  Some days \<Rightarrow> AddDate now 0 0 (wrap64 (- days))
                | None \<Rightarrow> now)
           | None \<Rightarrow> now)
        else if Contains timeText ''week'' then
          (case findQuantity ''week'' timeText of
             Some ds \<Rightarrow>
               (case Atoi ds of
                  Some weeks \<Rightarrow> AddDate now 0 0 (wrap64 (wrap64 (- weeks) * 7))
                | None \<Rightarrow> now)
           | None \<Rightarrow> now)
        else now
      else now)"

section \<open>Statistics of a fiction page (parseStats)\<close>










section \<open>Text reflow (wrapText)\<close>

text \<open>The inner loop over the words of one paragraph.\<close>

fun wrapWords :: "int \<Rightarrow> string list \<Rightarrow> string \<Rightarrow> string list \<Rightarrow> string list" where
  "wrapWords width lines currentLine [] =
     (if currentLine \<noteq> [] then lines @ [currentLine] else lines)"
| "wrapWords width lines currentLine (word # words) =
     (if int (length currentLine) + int (length word) + 1 \<le> width then
        (if currentLine = [] then wrapWords width lines word words
         else wrapWords width lines (currentLine @ '' '' @ word) words)
      else
        (if currentLine \<noteq> [] then wrapWords width (lines @ [currentLine]) word words
         else wrapWords width lines word words))"

text \<open>The outer loop over the paragraphs; blank paragraphs are skipped.\<close>

fun wrapParagraphs :: "int \<Rightarrow> string list \<Rightarrow> string list" where
  "wrapParagraphs width [] = []"
| "wrapParagraphs width (paragraph # rest) =
     (if TrimSpace paragraph = [] then wrapParagraphs width rest
      else if length (Fields paragraph) = 0 then wrapParagraphs width rest
      else Join (wrapWords width [] [] (Fields paragraph)) nl # wrapParagraphs width rest)"

definition wrapText :: "string \<Rightarrow> int \<Rightarrow> string" where
  "wrapText text width =
     (let width1 = (if width \<le> 20 then 40 else width)
      in Join (wrapParagraphs width1 (Split text (nl @ nl))) (nl @ nl))"

section \<open>The reader (internal/ui/reader.go)\<close>

text \<open>
  The fields of \<^verbatim>\<open>api.Fiction\<close>, \<^verbatim>\<open>api.FictionChapter\<close> and \<^verbatim>\<open>api.Chapter\<close> that the reader
  reads. The title and the author of a fiction carry a suffix, since \<open>Title\<close> and
  \<open>Author\<close> name fields of other records.
\<close>

record FictionChapter =
  ID :: int
  Title :: string

record FictionAuthor =
  Name :: string

record Fiction =
  Title_Fiction :: string
  Author_Fiction :: FictionAuthor
  Chapters :: "FictionChapter list"

record Chapter =
  Content :: string
  PreNote :: string
  PostNote :: string
  Next :: int
  Previous :: int

text \<open>
  The library functions the reader calls: \<^verbatim>\<open>html.UnescapeString\<close>, the rendering of an
  author's note by the terminal styling library, and the rounding of a \<^verbatim>\<open>float64\<close>
  product or quotient to the nearest representable number.
\<close>

record libs =
  unescapeString :: "string \<Rightarrow> string"
  renderNote :: "string \<Rightarrow> string"
  rnd :: "real \<Rightarrow> real"

text \<open>
  What the model assumes of the rounding: it is monotone and leaves integers alone
  (every integer below \<open>2 ^ 53\<close> is a \<^verbatim>\<open>float64\<close>).
\<close>

definition roundingOK :: "libs \<Rightarrow> bool" where
  "roundingOK L \<longleftrightarrow> mono (rnd L) \<and> (\<forall>n::int. rnd L (of_int n) = of_int n)"

text \<open>The conversion \<^verbatim>\<open>int(x)\<close> of a \<^verbatim>\<open>float64\<close> drops the fraction.\<close>

definition truncInt :: "real \<Rightarrow> int" where
  "truncInt x = (if 0 \<le> x then \<lfloor>x\<rfloor> else \<lceil>x\<rceil>)"

text \<open>\<^verbatim>\<open>max\<close> of \<^verbatim>\<open>internal/ui/utils.go\<close>.\<close>

definition max_go :: "int \<Rightarrow> int \<Rightarrow> int" where
  "max_go a b = (if a > b then a else b)"

text \<open>
  \<^verbatim>\<open>ReaderModel\<close>. A pointer that may be \<^verbatim>\<open>nil\<close> is an option; the HTTP client is left
  out.
\<close>

record ReaderModel =
  fictionID :: string
  fiction :: "Fiction option"
  currentChapter :: "Chapter option"
  chapterIndex :: int
  startChapter :: int
  loading :: bool
  err :: "string option"
  showHelp :: bool
  showTOC :: bool
  ready :: bool
  config :: "Config option"
  content :: "string list"
  currentPage :: int
  linesPerPage :: int
  totalPages :: int
  termWidth :: int
  termHeight :: int
  goToLastPage :: bool
  savedChapterProgress :: real

text \<open>
  \<^verbatim>\<open>NewReaderModel\<close>; the terminal size and the loaded configuration (never \<^verbatim>\<open>nil\<close>:
  \<^verbatim>\<open>config.Load\<close> falls back to the default configuration) are arguments.
\<close>

definition NewReaderModel :: "string \<Rightarrow> int \<Rightarrow> int \<Rightarrow> Config \<Rightarrow> ReaderModel" where
  "NewReaderModel fid width height cfg =
     \<lparr>fictionID = fid, fiction = None, currentChapter = None, chapterIndex = 0,
      startChapter = 0, loading = True, err = None, showHelp = False, showTOC = False,
      ready = True, config = Some cfg, content = [], currentPage = 0,
      linesPerPage = max_go (height - 4 - 1) 10, totalPages = 0,
      termWidth = width, termHeight = height, goToLastPage = False,
      savedChapterProgress = 0\<rparr>"

definition SetStartChapter :: "int \<Rightarrow> ReaderModel \<Rightarrow> ReaderModel" where
  "SetStartChapter idx m = m\<lparr>startChapter := idx\<rparr>"

text \<open>
  \<^verbatim>\<open>restoreReadingPosition\<close>: the loop breaks at the first entry of the fiction.
\<close>

definition restoreReadingPosition :: "ReaderModel \<Rightarrow> ReaderModel" where
  "restoreReadingPosition m =
     (case config m of
        None \<Rightarrow> m
      | Some c \<Rightarrow>
          (case find (\<lambda>entry. FictionID entry = fictionID m) (ReadingHistory c) of
             None \<Rightarrow> m
           | Some entry \<Rightarrow>
               (let m1 = (if startChapter m = 0
                          then m\<lparr>startChapter := CurrentChapter entry\<rparr> else m)
                in if startChapter m1 = CurrentChapter entry \<and> ChapterProgress entry > 0
                   then m1\<lparr>savedChapterProgress := ChapterProgress entry\<rparr>
                   else m1)))"

subsection \<open>Formatting a chapter\<close>

text \<open>\<^verbatim>\<open>ReplaceAllString\<close> of \<^verbatim>\<open><[^>]*>\<close> by the empty string.\<close>

function stripTags :: "string \<Rightarrow> string" where
  "stripTags [] = []"
| "stripTags (c # cs) =
     (if c = CHR ''<'' \<and> CHR ''>'' \<in> set cs
      then stripTags (tl (dropWhile (\<lambda>x. x \<noteq> CHR ''>'') cs))
      else c # stripTags cs)"
  by pat_completeness auto
termination
proof (relation "measure length")
  show "wf (measure length)" by simp
next
  fix c :: char and cs :: string
  have "length (tl (dropWhile (\<lambda>x. x \<noteq> CHR ''>'') cs)) \<le> length cs"
    using length_dropWhile_le [of "\<lambda>x. x \<noteq> CHR ''>''" cs] by simp
  then show "(tl (dropWhile (\<lambda>x. x \<noteq> CHR ''>'') cs), c # cs) \<in> measure length"
    by simp
next
  fix c :: char and cs :: string
  show "(cs, c # cs) \<in> measure length" by simp
qed

text \<open>\<^verbatim>\<open>ReplaceAllString\<close> of \<^verbatim>\<open>\s+\<close> by one space.\<close>

function collapseSpace :: "string \<Rightarrow> string" where
  "collapseSpace [] = []"
| "collapseSpace (c # cs) =
     (if isReSpace c then CHR 0x20 # collapseSpace (dropWhile isReSpace cs)
      else c # collapseSpace cs)"
  by pat_completeness auto
termination
proof (relation "measure length")
  show "wf (measure length)" by simp
next
  fix c :: char and cs :: string
  show "(dropWhile isReSpace cs, c # cs) \<in> measure length"
    using length_dropWhile_le [of isReSpace cs] by simp
next
  fix c :: char and cs :: string
  show "(cs, c # cs) \<in> measure length" by simp
qed

text \<open>The loop of \<^verbatim>\<open>cleanHTML\<close> over the pieces between \<^verbatim>\<open>". "\<close>.\<close>

fun closeSentences :: "string list \<Rightarrow> string list" where
  "closeSentences [] = []"
| "closeSentences (p # ps) =
     (let p1 = TrimSpace p
      in if p1 \<noteq> [] then
           (if ps \<noteq> [] \<and> \<not> HasSuffix p1 ''.'' then p1 @ ''.'' else p1) # closeSentences ps
         else closeSentences ps)"

definition cleanHTML :: "libs \<Rightarrow> string \<Rightarrow> string" where
  "cleanHTML L htmlContent =
     (let content1 = TrimSpace (collapseSpace (stripTags (unescapeString L htmlContent)));
          paragraphs = Split content1 ''. ''
      in if length paragraphs > 1 then Join (closeSentences paragraphs) (nl @ nl)
         else content1)"

definition formatChapterContent :: "libs \<Rightarrow> ReaderModel \<Rightarrow> string" where
  "formatChapterContent L m =
     (case currentChapter m of
        None \<Rightarrow> ''No chapter content available''
      | Some ch \<Rightarrow>
          (let pre = (if PreNote ch \<noteq> []
                      then renderNote L (''Author's Note: '' @ PreNote ch) @ nl @ nl else []);
               textWidth = max_go (termWidth m - 4) 40;
               chapterContent = wrapText (cleanHTML L (Content ch)) textWidth;
               post = (if PostNote ch \<noteq> []
                       then nl @ nl @ renderNote L (''Author's Note: '' @ PostNote ch) else [])
           in pre @ chapterContent @ post))"

subsection \<open>Pagination\<close>

text \<open>
  \<^verbatim>\<open>updateContent\<close>. The division panics when \<^verbatim>\<open>linesPerPage\<close> is 0.
\<close>

definition updateContent :: "libs \<Rightarrow> ReaderModel \<Rightarrow> panic + ReaderModel" where
  "updateContent L m =
     (if currentChapter m = None then Inr m
      else
        let m1 = m\<lparr>content := Split (formatChapterContent L m) nl\<rparr>
        in if length (content m1) \<noteq> 0 \<and> linesPerPage m1 = 0 then Inl DivideByZero
           else
             let m2 = (if length (content m1) = 0 then m1\<lparr>totalPages := 1\<rparr>
                       else m1\<lparr>totalPages :=
                         quot (int (length (content m1)) + linesPerPage m1 - 1)
                           (linesPerPage m1)\<rparr>)
             in Inr (if currentPage m2 \<ge> totalPages m2
                     then m2\<lparr>currentPage := max_go 0 (totalPages m2 - 1)\<rparr> else m2))"

text \<open>
  \<^verbatim>\<open>saveReadingProgress\<close>; \<open>now\<close> is the formatted reading of the clock. Indexing the
  chapters with a negative index panics. Writing the file is outside the model.
\<close>

definition saveReadingProgress :: "libs \<Rightarrow> string \<Rightarrow> ReaderModel \<Rightarrow> panic + ReaderModel" where
  "saveReadingProgress L now m =
     (case fiction m of
        None \<Rightarrow> Inr m
      | Some f \<Rightarrow>
          (case config m of
             None \<Rightarrow> Inr m
           | Some c \<Rightarrow>
               if chapterIndex m < int (length (Chapters f)) \<and> chapterIndex m < 0
               then Inl IndexOutOfRange
               else
                 let chapterTitle =
                       (if chapterIndex m < int (length (Chapters f))
                        then Title (Chapters f ! nat (chapterIndex m)) else []);
                     chapterProgress =
                       (if totalPages m > 0 then
                          (let q = rnd L (of_int (currentPage m) / of_int (totalPages m))
                           in if q > 1 then 1 else q)
                        else 0);
                     entry = \<lparr>FictionID = fictionID m,
                              FictionTitle = Title_Fiction f,
                              Author = Name (Author_Fiction f),
                              CurrentChapter = chapterIndex m,
                              ChapterTitle = chapterTitle,
                              ChapterProgress = chapterProgress,
                              LastRead = now,
                              TotalChapters = int (length (Chapters f))\<rparr>
                 in Inr (m\<lparr>config := Some (UpdateReadingProgress entry c)\<rparr>)))"

subsection \<open>The transitions of Update\<close>

datatype msg =
    WindowSizeMsg int int
  | KeyMsg string
  | FictionLoadedMsg Fiction
  | ChapterLoadedMsg Chapter int
  | ErrorMsg string
  | OtherMsg

datatype cmd = Quit | MenuInit | LoadFiction | LoadChapter int

text \<open>The number of chapters of the loaded fiction, if one is loaded.\<close>

definition chapterCount :: "ReaderModel \<Rightarrow> int option" where
  "chapterCount m = map_option (\<lambda>f. int (length (Chapters f))) (fiction m)"

text \<open>Keys \<^verbatim>\<open>n\<close> and \<^verbatim>\<open>b\<close>: next chapter.\<close>

definition keyNextChapter :: "ReaderModel \<Rightarrow> ReaderModel \<times> cmd option" where
  "keyNextChapter m =
     (case chapterCount m of
        Some n \<Rightarrow>
          if chapterIndex m < n - 1
          then (m\<lparr>chapterIndex := chapterIndex m + 1, loading := True\<rparr>,
                Some (LoadChapter (chapterIndex m + 1)))
          else (m, None)
      | None \<Rightarrow> (m, None))"

text \<open>Key \<^verbatim>\<open>p\<close>: previous chapter.\<close>

definition keyPrevChapter :: "ReaderModel \<Rightarrow> ReaderModel \<times> cmd option" where
  "keyPrevChapter m =
     (case chapterCount m of
        Some n \<Rightarrow>
          if chapterIndex m > 0
          then (m\<lparr>chapterIndex := chapterIndex m - 1, loading := True,
                   goToLastPage := True\<rparr>,
                Some (LoadChapter (chapterIndex m - 1)))
          else (m, None)
      | None \<Rightarrow> (m, None))"

text \<open>Space, \<^verbatim>\<open>f\<close>, down, \<^verbatim>\<open>j\<close>, right, \<^verbatim>\<open>l\<close>: next page.\<close>

definition keyNextPage :: "ReaderModel \<Rightarrow> ReaderModel \<times> cmd option" where
  "keyNextPage m =
     (if currentPage m < totalPages m - 1
      then (m\<lparr>currentPage := currentPage m + 1\<rparr>, None)
      else
        (case chapterCount m of
           Some n \<Rightarrow>
             if chapterIndex m < n - 1
             then (m\<lparr>chapterIndex := chapterIndex m + 1, loading := True\<rparr>,
                   Some (LoadChapter (chapterIndex m + 1)))
             else (m, None)
         | None \<Rightarrow> (m, None)))"

text \<open>Up, \<^verbatim>\<open>k\<close>, left, \<^verbatim>\<open>h\<close>: previous page.\<close>

definition keyPrevPage :: "ReaderModel \<Rightarrow> ReaderModel \<times> cmd option" where
  "keyPrevPage m =
     (if currentPage m > 0
      then (m\<lparr>currentPage := currentPage m - 1\<rparr>, None)
      else
        (case chapterCount m of
           Some n \<Rightarrow>
             if chapterIndex m > 0
             then (m\<lparr>chapterIndex := chapterIndex m - 1, loading := True,
                      goToLastPage := True\<rparr>,
                   Some (LoadChapter (chapterIndex m - 1)))
             else (m, None)
         | None \<Rightarrow> (m, None)))"

text \<open>
  A digit key (the one-character strings \<^verbatim>\<open>"0"\<close> to \<^verbatim>\<open>"9"\<close>): jump to a chapter while
  the table of contents is shown.
\<close>

definition keyDigit :: "string \<Rightarrow> ReaderModel \<Rightarrow> ReaderModel \<times> cmd option" where
  "keyDigit k m =
     (case chapterCount m of
        Some n \<Rightarrow>
          if showTOC m then
            (case Atoi k of
               Some chapterNum \<Rightarrow>
                 if chapterNum \<ge> 1 \<and> chapterNum \<le> n
                 then (m\<lparr>chapterIndex := chapterNum - 1, loading := True,
                          showTOC := False\<rparr>,
                       Some (LoadChapter (chapterNum - 1)))
                 else (m, None)
             | None \<Rightarrow> (m, None))
          else (m, None)
      | None \<Rightarrow> (m, None))"

definition onKey ::
  "libs \<Rightarrow> string \<Rightarrow> string \<Rightarrow> ReaderModel \<Rightarrow> panic + (ReaderModel \<times> cmd option)" where
  "onKey L now k m =
     (if k \<in> set [''ctrl+c'', ''q''] then
        (case saveReadingProgress L now m of
           Inl e \<Rightarrow> Inl e | Inr m1 \<Rightarrow> Inr (m1, Some Quit))
      else if k = ''m'' then
        (case saveReadingProgress L now m of
           Inl e \<Rightarrow> Inl e | Inr m1 \<Rightarrow> Inr (m1, Some MenuInit))
      else if k = ''?'' then Inr (m\<lparr>showHelp := \<not> showHelp m\<rparr>, None)
      else if k = ''t'' then
        Inr (if fiction m \<noteq> None then m\<lparr>showTOC := \<not> showTOC m\<rparr> else m, None)
      else if k \<in> set [''n'', ''b''] then Inr (keyNextChapter m)
      else if k = ''p'' then Inr (keyPrevChapter m)
      else if k \<in> set ['' '', ''f'', ''down'', ''j'', ''right'', ''l''] then
        Inr (keyNextPage m)
      else if k \<in> set [''up'', ''k'', ''left'', ''h''] then Inr (keyPrevPage m)
      else if k \<in> set [''g'', ''home''] then Inr (m\<lparr>currentPage := 0\<rparr>, None)
      else if k \<in> set [''G'', ''end''] then
        Inr (if totalPages m > 0 then m\<lparr>currentPage := totalPages m - 1\<rparr> else m, None)
      else if k = ''r'' then Inr (m\<lparr>loading := True, err := None\<rparr>, Some LoadFiction)
      else if list_ex (\<lambda>c. k = [c]) ''0123456789'' then Inr (keyDigit k m)
      else Inr (m, None))"

definition onWindowSize ::
  "libs \<Rightarrow> int \<Rightarrow> int \<Rightarrow> ReaderModel \<Rightarrow> panic + (ReaderModel \<times> cmd option)" where
  "onWindowSize L width height m =
     (let m1 = m\<lparr>termWidth := width, termHeight := height,
                 linesPerPage := max_go (height - 4 - 1) 10, ready := True\<rparr>
      in if currentChapter m1 \<noteq> None
         then (case updateContent L m1 of Inl e \<Rightarrow> Inl e | Inr m2 \<Rightarrow> Inr (m2, None))
         else Inr (m1, None))"

definition onFictionLoaded :: "Fiction \<Rightarrow> ReaderModel \<Rightarrow> ReaderModel \<times> cmd option" where
  "onFictionLoaded f m =
     (let m1 = m\<lparr>loading := False, fiction := Some f\<rparr>;
          n = int (length (Chapters f))
      in if n > 0 then
           (let startIndex = startChapter m1;
                startIndex1 = (if startIndex \<ge> n then n - 1 else startIndex);
                startIndex2 = (if startIndex1 < 0 then 0 else startIndex1)
            in (m1, Some (LoadChapter startIndex2)))
         else (m1\<lparr>err := Some ''no chapters found''\<rparr>, None))"

text \<open>The page a freshly loaded chapter opens at.\<close>

definition setPagePosition :: "libs \<Rightarrow> ReaderModel \<Rightarrow> ReaderModel" where
  "setPagePosition L m =
     (if goToLastPage m then
        (if totalPages m > 0 then m\<lparr>currentPage := totalPages m - 1\<rparr> else m)
          \<lparr>goToLastPage := False\<rparr>
      else if savedChapterProgress m > 0 then
        (if totalPages m > 0 then
           (let targetPage =
                  truncInt (rnd L (of_int (totalPages m) * savedChapterProgress m));
                targetPage1 =
                  (if targetPage \<ge> totalPages m then totalPages m - 1 else targetPage)
            in m\<lparr>currentPage := targetPage1\<rparr>)
         else m)
          \<lparr>savedChapterProgress := 0\<rparr>
      else m\<lparr>currentPage := 0\<rparr>)"

definition onChapterLoaded ::
  "libs \<Rightarrow> string \<Rightarrow> Chapter \<Rightarrow> int \<Rightarrow> ReaderModel \<Rightarrow> panic + (ReaderModel \<times> cmd option)"
  where
  "onChapterLoaded L now chapter idx m =
     (case updateContent L
             (m\<lparr>loading := False, currentChapter := Some chapter, chapterIndex := idx\<rparr>) of
        Inl e \<Rightarrow> Inl e
      | Inr m1 \<Rightarrow>
          (case saveReadingProgress L now (setPagePosition L m1) of
             Inl e \<Rightarrow> Inl e
           | Inr m2 \<Rightarrow> Inr (m2, None)))"

text \<open>
  \<^verbatim>\<open>Update\<close>: the new model and the command returned, or a panic. \<open>now\<close> is the clock
  reading at the time of the message.
\<close>

definition Update ::
  "libs \<Rightarrow> string \<Rightarrow> msg \<Rightarrow> ReaderModel \<Rightarrow> panic + (ReaderModel \<times> cmd option)" where
  "Update L now message m =
     (case message of
        WindowSizeMsg width height \<Rightarrow> onWindowSize L width height m
      | KeyMsg k \<Rightarrow> onKey L now k m
      | FictionLoadedMsg f \<Rightarrow> Inr (onFictionLoaded f m)
      | ChapterLoadedMsg chapter idx \<Rightarrow> onChapterLoaded L now chapter idx m
      | ErrorMsg e \<Rightarrow> Inr (m\<lparr>loading := False, err := Some e\<rparr>, None)
      | OtherMsg \<Rightarrow> Inr (m, None))"

text \<open>\<^verbatim>\<open>Init\<close>: the saved position is restored and the fiction is requested.\<close>

definition Init :: "ReaderModel \<Rightarrow> ReaderModel \<times> cmd option" where
  "Init m = (restoreReadingPosition m, Some LoadFiction)"

text \<open>A run of the event loop: the messages, each with its clock reading, in order.\<close>

fun run :: "libs \<Rightarrow> (string \<times> msg) list \<Rightarrow> ReaderModel \<Rightarrow> panic + ReaderModel" where
  "run L [] m = Inr m"
| "run L ((now, message) # rest) m =
     (case Update L now message m of
        Inl e \<Rightarrow> Inl e
      | Inr (m1, c) \<Rightarrow> run L rest m1)"

text \<open>
  The pagination invariant: the number of pages is the number of lines divided by the
  lines per page, rounded up and at least 1, and the current page is one of them.
\<close>

definition pageInv :: "ReaderModel \<Rightarrow> bool" where
  "pageInv m \<longleftrightarrow>
     totalPages m =
       max 1 \<lceil>(of_int (int (length (content m))) :: real) / of_int (linesPerPage m)\<rceil>
     \<and> 0 \<le> currentPage m \<and> currentPage m < totalPages m"

text \<open>
  The messages the program can deliver: \<^verbatim>\<open>loadChapter\<close> answers with a chapter only for
  an index that is not negative.
\<close>

definition deliverable :: "msg \<Rightarrow> bool" where
  "deliverable message =
     (case message of ChapterLoadedMsg chapter idx \<Rightarrow> 0 \<le> idx | _ \<Rightarrow> True)"

section \<open>Concrete inputs\<close>

text \<open>The values at which the theorems below are instantiated and the code is run.\<close>

definition historyEntry :: "string \<Rightarrow> int \<Rightarrow> real \<Rightarrow> ReadingEntry" where
  "historyEntry fid ch progress =
     \<lparr>FictionID = fid, FictionTitle = ''A Story'', Author = ''An Author'',
      CurrentChapter = ch, ChapterTitle = ''A Chapter'', ChapterProgress = progress,
      LastRead = ''2024-01-01 10:00'', TotalChapters = 3\<rparr>"

definition sampleConfig :: Config where
  "sampleConfig =
     \<lparr>LastFiction = ''11'',
      ReadingHistory =
        [historyEntry ''11'' 0 0, historyEntry ''22'' 1 (1 / 2), historyEntry ''33'' 2 0]\<rparr>"

definition history25 :: Config where
  "history25 =
     \<lparr>LastFiction = ''0'',
      ReadingHistory = map (\<lambda>n. historyEntry ''7'' (int n) 0) [0 ..< 25]\<rparr>"

definition sampleLibs :: libs where
  "sampleLibs = \<lparr>unescapeString = (\<lambda>s. s), renderNote = (\<lambda>s. s), rnd = (\<lambda>x. x)\<rparr>"

definition sampleFiction :: Fiction where
  "sampleFiction =
     \<lparr>Title_Fiction = ''A Story'', Author_Fiction = \<lparr>Name = ''An Author''\<rparr>,
      Chapters = [\<lparr>ID = 101, Title = ''One''\<rparr>, \<lparr>ID = 102, Title = ''Two''\<rparr>,
                  \<lparr>ID = 103, Title = ''Three''\<rparr>]\<rparr>"

text \<open>A chapter of one line and a chapter of thirteen lines (seven sentences).\<close>

definition shortChapter :: Chapter where
  "shortChapter =
     \<lparr>Content = ''<p>Hello world</p>'', PreNote = [], PostNote = [], Next = 102,
      Previous = - 1\<rparr>"

definition longChapter :: Chapter where
  "longChapter =
     \<lparr>Content = ''<p>a. b. c. d. e. f. g</p>'', PreNote = [], PostNote = [], Next = 103,
      Previous = 101\<rparr>"

section \<open>Properties of the reading history\<close>

lemma indexOfFiction_None:
  "indexOfFiction fid h = None \<longleftrightarrow> fid \<notin> FictionID ` set h"
  by (induction h) auto

lemma indexOfFiction_Some:
  "indexOfFiction fid h = Some i \<Longrightarrow>
     i < length h \<and> FictionID (h ! i) = fid \<and> (\<forall>j < i. FictionID (h ! j) \<noteq> fid)"
proof (induction h arbitrary: i)
  case Nil
  then show ?case by simp
next
  case (Cons e es)
  show ?case
  proof (cases "FictionID e = fid")
    case True
    with Cons.prems show ?thesis by simp
  next
    case False
    with Cons.prems obtain k where k: "indexOfFiction fid es = Some k" "i = Suc k"
      by auto
    from Cons.IH [OF k(1)] False k(2) show ?thesis
      by (auto simp: nth_Cons split: nat.splits)
  qed
qed

lemma remove_index_filter_other:
  "i < length h \<Longrightarrow> P (h ! i) \<Longrightarrow>
     filter (\<lambda>x. \<not> P x) (take i h @ drop (Suc i) h) = filter (\<lambda>x. \<not> P x) h"
proof -
  assume a: "i < length h" "P (h ! i)"
  have "h = take i h @ (h ! i) # drop (Suc i) h"
    using a(1) by (simp add: id_take_nth_drop)
  then have "filter (\<lambda>x. \<not> P x) h =
      filter (\<lambda>x. \<not> P x) (take i h @ (h ! i) # drop (Suc i) h)"
    by simp
  also have "\<dots> = filter (\<lambda>x. \<not> P x) (take i h @ drop (Suc i) h)"
    using a(2) by simp
  finally show ?thesis by simp
qed

lemma remove_index_filter_same:
  assumes "distinct (map f h)" "i < length h"
  shows "filter (\<lambda>x. f x = f (h ! i)) (take i h @ drop (Suc i) h) = []"
proof -
  have h: "h = take i h @ (h ! i) # drop (Suc i) h"
    using assms(2) by (simp add: id_take_nth_drop)
  have "distinct (map f (take i h @ (h ! i) # drop (Suc i) h))"
    using assms(1) h by simp
  then have "f (h ! i) \<notin> f ` set (take i h) \<and> f (h ! i) \<notin> f ` set (drop (Suc i) h)"
    by auto
  then show ?thesis
    by (auto simp: filter_empty_conv image_iff)
qed

lemma history_after_update:
  "ReadingHistory (UpdateReadingProgress entry c) =
     (case indexOfFiction (FictionID entry) (ReadingHistory c) of
        Some i \<Rightarrow> entry # (take i (ReadingHistory c) @ drop (Suc i) (ReadingHistory c))
      | None \<Rightarrow> entry # ReadingHistory c)"
proof (cases "indexOfFiction (FictionID entry) (ReadingHistory c)")
  case None
  then show ?thesis by (simp add: UpdateReadingProgress_def)
next
  case (Some i)
  from indexOfFiction_Some [OF Some] have i: "i < length (ReadingHistory c)" by simp
  show ?thesis
  proof (cases i)
    case 0
    with Some i show ?thesis
      by (cases "ReadingHistory c") (simp_all add: UpdateReadingProgress_def)
  next
    case (Suc k)
    with Some i show ?thesis
      by (simp add: UpdateReadingProgress_def Let_def drop_update_cancel)
  qed
qed

text \<open>
  C8. For a history with at most one entry per fiction id, after
  \<^verbatim>\<open>UpdateReadingProgress\<close> the new entry is at position 0, it is the only entry of its
  fiction id, the entries of the other fictions are the same and in the same order, the
  length grows by one exactly when the fiction had no entry (and is unchanged
  otherwise), and \<^verbatim>\<open>LastFiction\<close> is the entry's fiction id.
\<close>

theorem UpdateReadingProgress_upsert_promote:
  assumes "distinct (map FictionID (ReadingHistory c))"
  shows "ReadingHistory (UpdateReadingProgress entry c) \<noteq> []
    \<and> ReadingHistory (UpdateReadingProgress entry c) ! 0 = entry
    \<and> filter (\<lambda>x. FictionID x = FictionID entry)
          (ReadingHistory (UpdateReadingProgress entry c)) = [entry]
    \<and> filter (\<lambda>x. FictionID x \<noteq> FictionID entry)
          (ReadingHistory (UpdateReadingProgress entry c)) =
        filter (\<lambda>x. FictionID x \<noteq> FictionID entry) (ReadingHistory c)
    \<and> distinct (map FictionID (ReadingHistory (UpdateReadingProgress entry c)))
    \<and> (length (ReadingHistory (UpdateReadingProgress entry c)) =
          length (ReadingHistory c) + 1
        \<longleftrightarrow> FictionID entry \<notin> FictionID ` set (ReadingHistory c))
    \<and> (FictionID entry \<in> FictionID ` set (ReadingHistory c) \<longrightarrow>
          length (ReadingHistory (UpdateReadingProgress entry c)) =
          length (ReadingHistory c))
    \<and> LastFiction (UpdateReadingProgress entry c) = FictionID entry"
proof -
  define h where "h = ReadingHistory c"
  define h' where "h' = ReadingHistory (UpdateReadingProgress entry c)"
  have "h' \<noteq> [] \<and> h' ! 0 = entry
    \<and> filter (\<lambda>x. FictionID x = FictionID entry) h' = [entry]
    \<and> filter (\<lambda>x. FictionID x \<noteq> FictionID entry) h' =
        filter (\<lambda>x. FictionID x \<noteq> FictionID entry) h
    \<and> distinct (map FictionID h')
    \<and> (length h' = length h + 1 \<longleftrightarrow> FictionID entry \<notin> FictionID ` set h)
    \<and> (FictionID entry \<in> FictionID ` set h \<longrightarrow> length h' = length h)
    \<and> LastFiction (UpdateReadingProgress entry c) = FictionID entry"
  proof (cases "indexOfFiction (FictionID entry) h")
  case None
  then have notin: "FictionID entry \<notin> FictionID ` set h"
    by (simp add: indexOfFiction_None)
  have h': "h' = entry # h"
    using None by (simp add: h'_def h_def history_after_update)
  have same: "filter (\<lambda>x. FictionID x = FictionID entry) h = []"
    using notin by (auto simp: filter_empty_conv image_iff)
  have last: "LastFiction (UpdateReadingProgress entry c) = FictionID entry"
    using None by (simp add: UpdateReadingProgress_def h_def)
  show ?thesis
    using notin same last assms(1) by (simp add: h' h_def)
next
  case (Some i)
  from indexOfFiction_Some [OF Some]
  have i: "i < length h" and fid: "FictionID (h ! i) = FictionID entry" by simp_all
  then have isin: "FictionID entry \<in> FictionID ` set h"
    by (metis imageI nth_mem)
  define r where "r = take i h @ drop (Suc i) h"
  have h': "h' = entry # r"
    using Some by (simp add: h'_def h_def r_def history_after_update)
  have same: "filter (\<lambda>x. FictionID x = FictionID entry) r = []"
    using remove_index_filter_same [of FictionID h i] assms(1) i fid
    by (simp add: h_def r_def)
  have other: "filter (\<lambda>x. FictionID x \<noteq> FictionID entry) r =
      filter (\<lambda>x. FictionID x \<noteq> FictionID entry) h"
    using remove_index_filter_other [of i h "\<lambda>x. FictionID x = FictionID entry"] i fid
    by (simp add: r_def)
  have len: "Suc (length r) = length h"
    using i by (simp add: r_def)
  have dr: "distinct (map FictionID r)"
  proof -
    have "h = take i h @ (h ! i) # drop (Suc i) h"
      using i by (simp add: id_take_nth_drop)
    then have "distinct (map FictionID (take i h @ (h ! i) # drop (Suc i) h))"
      using assms(1) by (simp add: h_def)
    then show ?thesis by (auto simp: r_def)
  qed
  have notin_r: "FictionID entry \<notin> FictionID ` set r"
    using same by (auto simp: filter_empty_conv image_iff)
  have last: "LastFiction (UpdateReadingProgress entry c) = FictionID entry"
    using Some by (simp add: UpdateReadingProgress_def h_def Let_def)
  show ?thesis
    using same other len dr notin_r isin last by (simp add: h')
qed
  then show ?thesis unfolding h_def h'_def .
qed

theorem UpdateReadingProgress_upsert_promote_witness:
  "distinct (map FictionID (ReadingHistory sampleConfig))
   \<and> ReadingHistory (UpdateReadingProgress (historyEntry ''22'' 2 0) sampleConfig) =
       [historyEntry ''22'' 2 0, historyEntry ''11'' 0 0, historyEntry ''33'' 2 0]
   \<and> ReadingHistory (UpdateReadingProgress (historyEntry ''44'' 0 0) sampleConfig) =
       historyEntry ''44'' 0 0 # ReadingHistory sampleConfig
   \<and> ReadingHistory (UpdateReadingProgress (historyEntry ''22'' 2 0) sampleConfig) ! 0 =
       historyEntry ''22'' 2 0"
proof -
  have d: "distinct (map FictionID (ReadingHistory sampleConfig))"
    by (simp add: sampleConfig_def historyEntry_def)
  have a: "ReadingHistory (UpdateReadingProgress (historyEntry ''22'' 2 0) sampleConfig) =
       [historyEntry ''22'' 2 0, historyEntry ''11'' 0 0, historyEntry ''33'' 2 0]"
    by (simp add: UpdateReadingProgress_def sampleConfig_def historyEntry_def)
  have b: "ReadingHistory (UpdateReadingProgress (historyEntry ''44'' 0 0) sampleConfig) =
       historyEntry ''44'' 0 0 # ReadingHistory sampleConfig"
    by (simp add: UpdateReadingProgress_def sampleConfig_def historyEntry_def)
  from UpdateReadingProgress_upsert_promote [OF d, of "historyEntry ''22'' 2 0"]
  have "ReadingHistory (UpdateReadingProgress (historyEntry ''22'' 2 0) sampleConfig) ! 0 =
       historyEntry ''22'' 2 0"
    by blast
  with d a b show ?thesis by blast
qed

section \<open>History pagination\<close>

text \<open>
  C9. For every history of 25 entries, page 3 at page size 10 is the last five entries
  of the history, with three pages in total, no next page and a previous page.
\<close>

theorem GetReadingHistoryPage_25_page3:
  "length (ReadingHistory c) = 25 \<Longrightarrow>
     GetReadingHistoryPage c 3 10 = Inr (drop 20 (ReadingHistory c), 3, False, True)
     \<and> length (drop 20 (ReadingHistory c)) = 5"
  by (simp add: GetReadingHistoryPage_def quot_def Let_def)

theorem GetReadingHistoryPage_25_page3_witness:
  "length (ReadingHistory history25) = 25
   \<and> GetReadingHistoryPage history25 3 10 =
       Inr (drop 20 (ReadingHistory history25), 3, False, True)
   \<and> length (drop 20 (ReadingHistory history25)) = 5"
proof -
  have l: "length (ReadingHistory history25) = 25"
    by (simp add: history25_def)
  from GetReadingHistoryPage_25_page3 [OF l] l show ?thesis by blast
qed

section \<open>Statistics\<close>




section \<open>Text reflow\<close>

lemma wrapText_small_width: "width \<le> 20 \<Longrightarrow> wrapText text width = wrapText text 40"
  by (simp add: wrapText_def)

lemma wrapText_large_width:
  "20 < width \<Longrightarrow>
     wrapText text width = Join (wrapParagraphs width (Split text (nl @ nl))) (nl @ nl)"
  by (simp add: wrapText_def)

lemma reader_text_width: "40 \<le> max_go (termWidth m - 4) 40"
  by (simp add: max_go_def)

text \<open>
  C2. \<^verbatim>\<open>wrapText\<close> raises a width to 40 only when it is at most 20. At width 30 a word
  of 20 letters and a word of 15 letters are put on two lines; wrapped at 40 columns
  they share one line.
\<close>

theorem wrapText_width_30:
  "wrapText ''aaaaaaaaaaaaaaaaaaaa bbbbbbbbbbbbbbb'' 30 =
     ''aaaaaaaaaaaaaaaaaaaa'' @ nl @ ''bbbbbbbbbbbbbbb''
   \<and> wrapText ''aaaaaaaaaaaaaaaaaaaa bbbbbbbbbbbbbbb'' 40 =
     ''aaaaaaaaaaaaaaaaaaaa bbbbbbbbbbbbbbb''
   \<and> wrapText ''aaaaaaaaaaaaaaaaaaaa bbbbbbbbbbbbbbb'' 30 \<noteq>
     wrapText ''aaaaaaaaaaaaaaaaaaaa bbbbbbbbbbbbbbb'' 40"
  by (simp add: wrapText_def Split_def nl_def TrimSpace_def isSpace_def Fields_def)

section \<open>Relative release times\<close>

lemma findQuantity_no_digit:
  "\<forall>c \<in> set s. \<not> isDigit c \<Longrightarrow> findQuantity unit s = None"
  by (induction s) (simp_all add: matchQuantityAt_def)

text \<open>
  C7. \<^verbatim>\<open>"3 hours ago"\<close> is \<open>now\<close> minus three hours, \<^verbatim>\<open>"2 days ago"\<close> is \<open>now\<close> minus two
  days and \<^verbatim>\<open>"1 week ago"\<close> is \<open>now\<close> minus seven days. A text without \<^verbatim>\<open>ago\<close>, a text
  with none of the three unit words and a text without a digit (such as
  \<^verbatim>\<open>"yesterday"\<close>) give \<open>now\<close> unchanged.
\<close>

theorem parseRelativeTime_cases:
  "parseRelativeTime Add AddDate now ''3 hours ago'' = Add now (- (3 * Hour))
   \<and> parseRelativeTime Add AddDate now ''2 days ago'' = AddDate now 0 0 (- 2)
   \<and> parseRelativeTime Add AddDate now ''1 week ago'' = AddDate now 0 0 (- 7)
   \<and> parseRelativeTime Add AddDate now ''yesterday'' = now
   \<and> (\<not> Contains timeText ''ago'' \<longrightarrow>
        parseRelativeTime Add AddDate now timeText = now)
   \<and> (\<not> Contains timeText ''hour'' \<and> \<not> Contains timeText ''day''
        \<and> \<not> Contains timeText ''week'' \<longrightarrow>
        parseRelativeTime Add AddDate now timeText = now)
   \<and> ((\<forall>c \<in> set timeText. \<not> isDigit c) \<longrightarrow>
        parseRelativeTime Add AddDate now timeText = now)"
proof -
  have h: "parseRelativeTime Add AddDate now ''3 hours ago'' = Add now (- (3 * Hour))"
    by (simp add: parseRelativeTime_def matchQuantityAt_def isDigit_def isReSpace_def
        Atoi_def wrap64_def Hour_def)
  have d: "parseRelativeTime Add AddDate now ''2 days ago'' = AddDate now 0 0 (- 2)"
    by (simp add: parseRelativeTime_def matchQuantityAt_def isDigit_def isReSpace_def
        Atoi_def wrap64_def)
  have w: "parseRelativeTime Add AddDate now ''1 week ago'' = AddDate now 0 0 (- 7)"
    by (simp add: parseRelativeTime_def matchQuantityAt_def isDigit_def isReSpace_def
        Atoi_def wrap64_def)
  have y: "parseRelativeTime Add AddDate now ''yesterday'' = now"
    by (simp add: parseRelativeTime_def)
  have a: "\<not> Contains timeText ''ago'' \<longrightarrow>
      parseRelativeTime Add AddDate now timeText = now"
    by (simp add: parseRelativeTime_def)
  have u: "\<not> Contains timeText ''hour'' \<and> \<not> Contains timeText ''day''
      \<and> \<not> Contains timeText ''week'' \<longrightarrow>
      parseRelativeTime Add AddDate now timeText = now"
    by (simp add: parseRelativeTime_def)
  have n: "(\<forall>c \<in> set timeText. \<not> isDigit c) \<longrightarrow>
      parseRelativeTime Add AddDate now timeText = now"
    by (simp add: parseRelativeTime_def findQuantity_no_digit)
  from h d w y a u n show ?thesis by blast
qed

theorem parseRelativeTime_cases_witness:
  "\<not> Contains ''3 hours'' ''ago''
   \<and> parseRelativeTime (\<lambda>t d. t + d) (\<lambda>t y m d. t + d * 24 * Hour) (0::int) ''3 hours'' = 0
   \<and> \<not> Contains ''3 months ago'' ''hour'' \<and> \<not> Contains ''3 months ago'' ''day''
   \<and> \<not> Contains ''3 months ago'' ''week''
   \<and> parseRelativeTime (\<lambda>t d. t + d) (\<lambda>t y m d. t + d * 24 * Hour) (0::int)
        ''3 months ago'' = 0
   \<and> list_all (\<lambda>c. \<not> isDigit c) ''an hour ago''
   \<and> parseRelativeTime (\<lambda>t d. t + d) (\<lambda>t y m d. t + d * 24 * Hour) (0::int)
        ''an hour ago'' = 0
   \<and> parseRelativeTime (\<lambda>t d. t + d) (\<lambda>t y m d. t + d * 24 * Hour) (0::int)
        ''3 hours ago'' = - (3 * Hour)"
proof -
  have a: "\<not> Contains ''3 hours'' ''ago''" by simp
  have u: "\<not> Contains ''3 months ago'' ''hour'' \<and> \<not> Contains ''3 months ago'' ''day''
      \<and> \<not> Contains ''3 months ago'' ''week''" by simp
  have n: "\<forall>c \<in> set ''an hour ago''. \<not> isDigit c" by (simp add: isDigit_def)
  note t1 = parseRelativeTime_cases [of "\<lambda>t d. t + d" "\<lambda>t y m d. t + d * 24 * Hour" "0::int"
      "''3 hours''"]
  note t2 = parseRelativeTime_cases [of "\<lambda>t d. t + d" "\<lambda>t y m d. t + d * 24 * Hour" "0::int"
      "''3 months ago''"]
  note t3 = parseRelativeTime_cases [of "\<lambda>t d. t + d" "\<lambda>t y m d. t + d * 24 * Hour" "0::int"
      "''an hour ago''"]
  from t1 a have r1: "parseRelativeTime (\<lambda>t d. t + d) (\<lambda>t y m d. t + d * 24 * Hour) (0::int)
      ''3 hours'' = 0" by blast
  from t2 u have r2: "parseRelativeTime (\<lambda>t d. t + d) (\<lambda>t y m d. t + d * 24 * Hour) (0::int)
      ''3 months ago'' = 0" by blast
  from t3 n have r3: "parseRelativeTime (\<lambda>t d. t + d) (\<lambda>t y m d. t + d * 24 * Hour) (0::int)
      ''an hour ago'' = 0" by blast
  from t1 have r4: "parseRelativeTime (\<lambda>t d. t + d) (\<lambda>t y m d. t + d * 24 * Hour) (0::int)
      ''3 hours ago'' = - (3 * Hour)" by simp
  from n have n': "list_all (\<lambda>c. \<not> isDigit c) ''an hour ago''"
    by (simp only: list_all_iff)
  from a u n' r1 r2 r3 r4 show ?thesis by blast
qed

section \<open>Restoring the reading position\<close>

text \<open>
  C10. With a start chapter of 0 and an entry of the fiction in the history,
  \<^verbatim>\<open>restoreReadingPosition\<close> replaces the start chapter by the chapter saved in the first
  such entry; setting the start chapter to 0 on a new model changes nothing, so the
  request for chapter 0 cannot be told from no request; a start chapter other than 0
  is kept, whatever the history holds.
\<close>

theorem restoreReadingPosition_start_chapter:
  "(config m = Some c
      \<and> find (\<lambda>e. FictionID e = fictionID m) (ReadingHistory c) = Some entry
      \<and> startChapter m = 0 \<longrightarrow>
      startChapter (restoreReadingPosition m) = CurrentChapter entry)
   \<and> (startChapter m \<noteq> 0 \<longrightarrow> startChapter (restoreReadingPosition m) = startChapter m)
   \<and> SetStartChapter 0 (NewReaderModel fid width height cfg) =
       NewReaderModel fid width height cfg"
  by (auto simp: restoreReadingPosition_def SetStartChapter_def NewReaderModel_def Let_def
      split: option.splits)

theorem restoreReadingPosition_start_chapter_witness:
  "config (SetStartChapter 0 (NewReaderModel ''22'' 80 24 sampleConfig)) = Some sampleConfig
   \<and> find (\<lambda>e. FictionID e = fictionID (SetStartChapter 0 (NewReaderModel ''22'' 80 24 sampleConfig)))
        (ReadingHistory sampleConfig) = Some (historyEntry ''22'' 1 (1 / 2))
   \<and> startChapter (SetStartChapter 0 (NewReaderModel ''22'' 80 24 sampleConfig)) = 0
   \<and> startChapter (restoreReadingPosition
        (SetStartChapter 0 (NewReaderModel ''22'' 80 24 sampleConfig))) = 1
   \<and> startChapter (SetStartChapter 2 (NewReaderModel ''22'' 80 24 sampleConfig)) \<noteq> 0
   \<and> startChapter (restoreReadingPosition
        (SetStartChapter 2 (NewReaderModel ''22'' 80 24 sampleConfig))) = 2"
proof -
  let ?m0 = "SetStartChapter 0 (NewReaderModel ''22'' 80 24 sampleConfig)"
  let ?m2 = "SetStartChapter 2 (NewReaderModel ''22'' 80 24 sampleConfig)"
  have a: "config ?m0 = Some sampleConfig"
    by (simp add: SetStartChapter_def NewReaderModel_def)
  have b: "find (\<lambda>e. FictionID e = fictionID ?m0) (ReadingHistory sampleConfig) =
      Some (historyEntry ''22'' 1 (1 / 2))"
    by (simp add: SetStartChapter_def NewReaderModel_def sampleConfig_def historyEntry_def)
  have c: "startChapter ?m0 = 0"
    by (simp add: SetStartChapter_def NewReaderModel_def)
  have d: "startChapter ?m2 \<noteq> 0"
    by (simp add: SetStartChapter_def NewReaderModel_def)
  have e: "startChapter ?m2 = 2"
    by (simp add: SetStartChapter_def NewReaderModel_def)
  have "startChapter (restoreReadingPosition ?m0) =
      CurrentChapter (historyEntry ''22'' 1 (1 / 2))"
    using restoreReadingPosition_start_chapter
      [of ?m0 sampleConfig "historyEntry ''22'' 1 (1 / 2)"] a b c
    by blast
  then have r0: "startChapter (restoreReadingPosition ?m0) = 1"
    by (simp add: historyEntry_def)
  have "startChapter (restoreReadingPosition ?m2) = startChapter ?m2"
    using restoreReadingPosition_start_chapter [of ?m2] d by blast
  with e have r2: "startChapter (restoreReadingPosition ?m2) = 2"
    by simp
  from a b c d r0 r2 show ?thesis by blast
qed

end
